theory Spec2Isabelle
  imports Complex_Main
begin

section \<open>The configuration document of \<open>save_model_config\<close>\<close>

text \<open>
  \<open>save_model_config\<close> builds one literal Python dictionary and hands it to
  \<open>json.dump\<close>. The dictionary is modelled as a JSON value. Objects are association
  lists, since a Python \<open>dict\<close> keeps the order in which its keys were written. A
  Python \<open>float\<close> literal is modelled by the rational number its decimal digits denote.
\<close>

datatype json =
    JString string
  | JInt int
  | JFloat rat
  | JArray "json list"
  | JObject "(string \<times> json) list"

text \<open>The value of \<open>config["models"]["yolo"]["classes"]\<close>.\<close>

definition yolo_classes :: "string list" where
  "yolo_classes =
    [''person'', ''bicycle'', ''car'', ''motorcycle'', ''airplane'', ''bus'', ''train'', ''truck'', ''boat'',
     ''traffic light'', ''fire hydrant'', ''stop sign'', ''parking meter'', ''bench'', ''bird'', ''cat'',
     ''dog'', ''horse'', ''sheep'', ''cow'', ''elephant'', ''bear'', ''zebra'', ''giraffe'', ''backpack'',
     ''umbrella'', ''handbag'', ''tie'', ''suitcase'', ''frisbee'', ''skis'', ''snowboard'', ''sports ball'',
     ''kite'', ''baseball bat'', ''baseball glove'', ''skateboard'', ''surfboard'', ''tennis racket'',
     ''bottle'', ''wine glass'', ''cup'', ''fork'', ''knife'', ''spoon'', ''bowl'', ''banana'', ''apple'',
     ''sandwich'', ''orange'', ''broccoli'', ''carrot'', ''hot dog'', ''pizza'', ''donut'', ''cake'',
     ''chair'', ''couch'', ''potted plant'', ''bed'', ''dining table'', ''toilet'', ''tv'', ''laptop'',
     ''mouse'', ''remote'', ''keyboard'', ''cell phone'', ''microwave'', ''oven'', ''toaster'', ''sink'',
     ''refrigerator'', ''book'', ''clock'', ''vase'', ''scissors'', ''teddy bear'', ''hair drier'', ''toothbrush'']"

text \<open>The value of \<open>config["labels"]["yolo_alias"]\<close>.\<close>

definition yolo_alias :: "(string \<times> string list) list" where
  "yolo_alias =
    [(''bicycle'', [''bicycle'']),
     (''car'', [''car'', ''truck'']),
     (''bus'', [''bus'', ''truck'']),
     (''motorcycle'', [''motorcycle'']),
     (''boat'', [''boat'']),
     (''fire hydrant'', [''fire hydrant'', ''parking meter'']),
     (''parking meter'', [''fire hydrant'', ''parking meter'']),
     (''traffic light'', [''traffic light''])]"

text \<open>The value of \<open>config["labels"]["clip_labels"]\<close>.\<close>

definition clip_labels :: "string list" where
  "clip_labels =
    [''bicycle'', ''boat'', ''bus'', ''car'', ''fire hydrant'', ''motorcycle'', ''traffic light'',
     ''bridge'', ''chimney'', ''crosswalk'', ''mountain'', ''palm tree'', ''stair'', ''tractor'', ''taxi'']"

text \<open>The value of \<open>config["labels"]["challenge_alias"]\<close>.\<close>

definition challenge_alias :: "(string \<times> string) list" where
  "challenge_alias =
    [(''car'', ''car''), (''cars'', ''car''), (''vehicles'', ''car''),
     (''taxis'', ''taxi''), (''taxi'', ''taxi''),
     (''bus'', ''bus''), (''buses'', ''bus''),
     (''motorcycle'', ''motorcycle''), (''motorcycles'', ''motorcycle''),
     (''bicycle'', ''bicycle''), (''bicycles'', ''bicycle''),
     (''boats'', ''boat''), (''boat'', ''boat''),
     (''tractors'', ''tractor''), (''tractor'', ''tractor''),
     (''stairs'', ''stair''), (''stair'', ''stair''),
     (''palm trees'', ''palm tree''), (''palm tree'', ''palm tree''),
     (''fire hydrants'', ''fire hydrant''), (''a fire hydrant'', ''fire hydrant''), (''fire hydrant'', ''fire hydrant''),
     (''parking meters'', ''parking meter''), (''parking meter'', ''parking meter''),
     (''crosswalks'', ''crosswalk''), (''crosswalk'', ''crosswalk''),
     (''traffic lights'', ''traffic light''), (''traffic light'', ''traffic light''),
     (''bridges'', ''bridge''), (''bridge'', ''bridge''),
     (''mountains or hills'', ''mountain''), (''mountain or hill'', ''mountain''), (''mountain'', ''mountain''),
     (''mountains'', ''mountain''), (''hills'', ''mountain''), (''hill'', ''mountain''),
     (''chimney'', ''chimney''), (''chimneys'', ''chimney'')]"

text \<open>The value of \<open>config["labels"]["thresholds"]\<close>.\<close>

definition thresholds :: "(string \<times> rat) list" where
  "thresholds =
    [(''bridge'', 0.7285372716747225),
     (''chimney'', 0.7918647485226393),
     (''crosswalk'', 0.8879293048381806),
     (''mountain'', 0.5551278884819476),
     (''palm tree'', 0.8093279512040317),
     (''stair'', 0.9112694561691023),
     (''tractor'', 0.9385110986077537),
     (''taxi'', 0.7967491503432393)]"

text \<open>The dictionary \<open>config\<close> of \<open>save_model_config\<close>, key by key.\<close>

definition config :: json where
  "config = JObject
    [(''models'', JObject
       [(''yolo'', JObject
          [(''path'', JString ''models/yolo11m-seg.onnx''),
           (''input_size'', JArray [JInt 640, JInt 640]),
           (''classes'', JArray (map JString yolo_classes))]),
        (''clip_vision'', JObject
          [(''path'', JString ''models/clip_vision_encoder.onnx''),
           (''input_size'', JArray [JInt 224, JInt 224])]),
        (''clip_text'', JObject
          [(''path'', JString ''models/clip_text_encoder.onnx''),
           (''vocab_size'', JInt 49408)]),
        (''clipseg'', JObject
          [(''path'', JString ''models/clipseg.onnx''),
           (''input_size'', JArray [JInt 352, JInt 352])])]),
     (''labels'', JObject
       [(''yolo_alias'', JObject (map (\<lambda>(k, vs). (k, JArray (map JString vs))) yolo_alias)),
        (''clip_labels'', JArray (map JString clip_labels)),
        (''challenge_alias'', JObject (map (\<lambda>(k, v). (k, JString v)) challenge_alias)),
        (''thresholds'', JObject (map (\<lambda>(k, v). (k, JFloat v)) thresholds))])]"

subsection \<open>Reading the document\<close>

text \<open>
  \<open>lookup_path ks doc\<close> is \<open>doc[k1][k2]...\<close>: \<open>None\<close> where Python would raise
  \<open>KeyError\<close> or \<open>TypeError\<close>.
\<close>

fun lookup_path :: "string list \<Rightarrow> json \<Rightarrow> json option" where
  "lookup_path [] doc = Some doc"
| "lookup_path (k # ks) (JObject kvs) =
     (case map_of kvs k of None \<Rightarrow> None | Some v \<Rightarrow> lookup_path ks v)"
| "lookup_path (k # ks) doc = None"

text \<open>The entries of an object and the elements of an array (empty for any other value).\<close>

fun entries :: "json option \<Rightarrow> (string \<times> json) list" where
  "entries (Some (JObject kvs)) = kvs"
| "entries other = []"

fun elements :: "json option \<Rightarrow> json list" where
  "elements (Some (JArray vs)) = vs"
| "elements other = []"

text \<open>The category names a document refers to, table by table.\<close>

definition yolo_alias_values :: "json \<Rightarrow> json list" where
  "yolo_alias_values doc =
     concat (map (\<lambda>(k, v). elements (Some v)) (entries (lookup_path [''labels'', ''yolo_alias''] doc)))"

definition yolo_alias_keys :: "json \<Rightarrow> json list" where
  "yolo_alias_keys doc = map (\<lambda>(k, v). JString k) (entries (lookup_path [''labels'', ''yolo_alias''] doc))"

definition challenge_alias_values :: "json \<Rightarrow> json list" where
  "challenge_alias_values doc = map snd (entries (lookup_path [''labels'', ''challenge_alias''] doc))"

definition threshold_keys :: "json \<Rightarrow> json list" where
  "threshold_keys doc = map (\<lambda>(k, v). JString k) (entries (lookup_path [''labels'', ''thresholds''] doc))"

definition threshold_values :: "json \<Rightarrow> json list" where
  "threshold_values doc = map snd (entries (lookup_path [''labels'', ''thresholds''] doc))"

definition clip_vocabulary :: "json \<Rightarrow> json list" where
  "clip_vocabulary doc = elements (lookup_path [''labels'', ''clip_labels''] doc)"

definition yolo_vocabulary :: "json \<Rightarrow> json list" where
  "yolo_vocabulary doc = elements (lookup_path [''models'', ''yolo'', ''classes''] doc)"

text \<open>A JSON number that is a float between 0 and 1.\<close>

fun unit_float :: "json \<Rightarrow> bool" where
  "unit_float (JFloat x) = (0 \<le> x \<and> x \<le> 1)"
| "unit_float other = False"

section \<open>The conversion pipeline of \<open>ModelConverter\<close>\<close>

subsection \<open>The world the script runs in\<close>

text \<open>
  Every call into a library (\<open>ultralytics\<close>, \<open>transformers\<close>, \<open>torch.onnx\<close>, the
  operating system) either returns or raises an \<open>Exception\<close> with a message; which
  of the two happens is not decided by the script, so it is a parameter of the model.
  \<open>model.eval()\<close> and \<open>torch.rand\<close> are taken to return. What \<open>except Exception\<close>
  lets through (\<open>KeyboardInterrupt\<close>, \<open>SystemExit\<close>) is outside the model, and so
  is the failure of the imports at the top of the script, which ends it before any of
  this runs.
\<close>

datatype outcome = Returns | Raises string

record env =
  script_dir :: string  \<comment> \<open>\<open>Path(__file__).parent\<close>\<close>
  mkdir_output_dir :: outcome  \<comment> \<open>\<open>self.output_dir.mkdir(exist_ok=True)\<close>\<close>
  check_loaded :: outcome  \<comment> \<open>\<open>detection_models.check_loaded()\<close>\<close>
  yolo_load :: outcome  \<comment> \<open>\<open>YOLO("yolo11m-seg.pt")\<close>\<close>
  yolo_export :: outcome  \<comment> \<open>\<open>model.export(format="onnx", ...)\<close>\<close>
  yolo_export_writes :: bool  \<comment> \<open>whether that export leaves \<open>yolo11m-seg.onnx\<close> in the working directory\<close>
  yolo_rename :: outcome  \<comment> \<open>\<open>yolo_onnx_path.rename(...)\<close>\<close>
  clip_model_load :: outcome  \<comment> \<open>\<open>CLIPModel.from_pretrained(...)\<close>\<close>
  clip_processor_load :: outcome  \<comment> \<open>\<open>CLIPProcessor.from_pretrained(...)\<close>\<close>
  clip_processor_call :: outcome  \<comment> \<open>\<open>processor(text=..., images=..., ...)\<close>\<close>
  clip_text_export :: outcome  \<comment> \<open>\<open>torch.onnx.export(model.text_model, ...)\<close>\<close>
  clip_vision_export :: outcome  \<comment> \<open>\<open>torch.onnx.export(model.vision_model, ...)\<close>\<close>
  clipseg_model_load :: outcome  \<comment> \<open>\<open>CLIPSegForImageSegmentation.from_pretrained(...)\<close>\<close>
  clipseg_processor_load :: outcome  \<comment> \<open>\<open>CLIPSegProcessor.from_pretrained(...)\<close>\<close>
  clipseg_processor_call :: outcome  \<comment> \<open>\<open>processor(text=..., images=..., ...)\<close>\<close>
  clipseg_export :: outcome  \<comment> \<open>\<open>torch.onnx.export(model, ...)\<close>\<close>
  config_open :: outcome  \<comment> \<open>\<open>open(self.output_dir / "config.json", "w")\<close>\<close>

text \<open>What a file holds: the inference graph of one network, or a JSON document.\<close>

datatype network = YoloSeg | ClipTextEncoder | ClipVisionEncoder | ClipSeg

datatype content = OnnxGraph network | JsonDocument json

datatype model = Yolo | ClipVit | Clipseg

text \<open>
  The lines the script prints. The three export methods print the same three kinds of
  line, each with its own model name (\<open>YOLO\<close>, \<open>CLIP ViT\<close>, \<open>CLIPSeg\<close>); a string
  argument is the text interpolated into the f-string.
\<close>

datatype line =
    OutputDirectory string  \<comment> \<open>\<open>Output directory: {self.output_dir}\<close>\<close>
  | Converting model  \<comment> \<open>\<open>Converting ... model...\<close>\<close>
  | Converted model  \<comment> \<open>\<open>... converted successfully\<close>\<close>
  | Failed model string  \<comment> \<open>\<open>Failed to convert ... model: {e}\<close>\<close>
  | YoloFileNotFound  \<comment> \<open>\<open>YOLO ONNX file not found after export\<close>\<close>
  | ConfigSaved  \<comment> \<open>\<open>Model configuration saved\<close>\<close>
  | StartingConversion  \<comment> \<open>\<open>Starting model conversion...\<close>\<close>
  | LoadingModels  \<comment> \<open>\<open>Loading PyTorch models...\<close>\<close>
  | ModelsLoaded  \<comment> \<open>\<open>PyTorch models loaded\<close>\<close>
  | LoadFailed string  \<comment> \<open>\<open>Failed to load PyTorch models: {e}\<close>\<close>
  | ConversionCompleted  \<comment> \<open>\<open>Model conversion completed!\<close>\<close>
  | ModelsSavedTo string  \<comment> \<open>\<open>Models saved to: {self.output_dir}\<close>\<close>
  | NextSteps  \<comment> \<open>the four closing lines, from \<open>Next steps:\<close> on\<close>

text \<open>The methods that \<open>convert_all\<close> calls: an export of a model, or \<open>save_model_config\<close>.\<close>

datatype routine = Export model | SaveModelConfig

text \<open>
  What can be observed of a run, in order: a printed line, or the entry into one of the
  four methods that \<open>convert_all\<close> calls.
\<close>

datatype event = Print line | Enter routine

record state =
  files :: "string \<rightharpoonup> content"  \<comment> \<open>the file system, by path\<close>
  trace :: "event list"

subsection \<open>Statements\<close>

text \<open>
  A statement runs from a state and ends in a state; \<open>Some e\<close> beside it says that an
  exception with message \<open>e\<close> left the statement.
\<close>

type_synonym command = "state \<Rightarrow> string option \<times> state"

definition print :: "line \<Rightarrow> command" where
  "print l s = (None, s\<lparr>trace := trace s @ [Print l]\<rparr>)"

definition enter :: "routine \<Rightarrow> command" where
  "enter m s = (None, s\<lparr>trace := trace s @ [Enter m]\<rparr>)"

definition library_call :: "outcome \<Rightarrow> command" where
  "library_call oc s = (case oc of Returns \<Rightarrow> (None, s) | Raises e \<Rightarrow> (Some e, s))"

definition write_file :: "string \<Rightarrow> content \<Rightarrow> command" where
  "write_file p c s = (None, s\<lparr>files := (files s)(p \<mapsto> c)\<rparr>)"

text \<open>Statements one after the other; an exception skips the rest.\<close>

fun block :: "command list \<Rightarrow> command" where
  "block [] s = (None, s)"
| "block (c # cs) s = (case c s of (None, s') \<Rightarrow> block cs s' | (Some e, s') \<Rightarrow> (Some e, s'))"

text \<open>\<open>try: body except Exception as e: handler\<close>.\<close>

definition try_except :: "command \<Rightarrow> (string \<Rightarrow> command) \<Rightarrow> command" where
  "try_except body handler s =
     (case body s of (None, s') \<Rightarrow> (None, s') | (Some e, s') \<Rightarrow> handler e s')"

text \<open>\<open>dir / name\<close> on paths.\<close>

definition path_join :: "string \<Rightarrow> string \<Rightarrow> string" where
  "path_join dir name = dir @ ''/'' @ name"

text \<open>
  \<open>torch.onnx.export(net, inputs, path, ...)\<close>: the file is there once the call
  returns, and a call that raises is taken to leave no file.
\<close>

definition onnx_export :: "outcome \<Rightarrow> string \<Rightarrow> network \<Rightarrow> command" where
  "onnx_export oc p net = block [library_call oc, write_file p (OnnxGraph net)]"

text \<open>
  \<open>src.rename(dst)\<close>: raises when the source is missing (\<open>FileNotFoundError\<close>) or the
  operating system refuses.
\<close>

definition rename :: "outcome \<Rightarrow> string \<Rightarrow> string \<Rightarrow> command" where
  "rename oc src dst s =
     (case files s src of
        None \<Rightarrow> (Some ''FileNotFoundError'', s)
      | Some c \<Rightarrow>
          (case oc of
             Raises e \<Rightarrow> (Some e, s)
           | Returns \<Rightarrow> (None, s\<lparr>files := ((files s)(src := None))(dst \<mapsto> c)\<rparr>)))"

subsection \<open>The methods of \<open>ModelConverter\<close>\<close>

record converter =
  output_dir :: string



text \<open>The body of the \<open>try\<close> of \<open>convert_clip_vit_model\<close>, and the method.\<close>

definition clip_vit_try :: "converter \<Rightarrow> env \<Rightarrow> command" where
  "clip_vit_try self env = block
     [library_call (clip_model_load env),
      library_call (clip_processor_load env),
      library_call (clip_processor_call env),
      onnx_export (clip_text_export env)
        (path_join (output_dir self) ''clip_text_encoder.onnx'') ClipTextEncoder,
      onnx_export (clip_vision_export env)
        (path_join (output_dir self) ''clip_vision_encoder.onnx'') ClipVisionEncoder,
      print (Converted ClipVit)]"

definition convert_clip_vit_model :: "converter \<Rightarrow> env \<Rightarrow> command" where
  "convert_clip_vit_model self env = block
     [enter (Export ClipVit),
      print (Converting ClipVit),
      try_except (clip_vit_try self env) (\<lambda>e. print (Failed ClipVit e))]"

text \<open>The body of the \<open>try\<close> of \<open>convert_clipseg_model\<close>, and the method.\<close>

definition clipseg_try :: "converter \<Rightarrow> env \<Rightarrow> command" where
  "clipseg_try self env = block
     [library_call (clipseg_model_load env),
      library_call (clipseg_processor_load env),
      library_call (clipseg_processor_call env),
      onnx_export (clipseg_export env)
        (path_join (output_dir self) ''clipseg.onnx'') ClipSeg,
      print (Converted Clipseg)]"

definition convert_clipseg_model :: "converter \<Rightarrow> env \<Rightarrow> command" where
  "convert_clipseg_model self env = block
     [enter (Export Clipseg),
      print (Converting Clipseg),
      try_except (clipseg_try self env) (\<lambda>e. print (Failed Clipseg e))]"

definition yolo_onnx_path :: string where
  "yolo_onnx_path = ''yolo11m-seg.onnx''"

text \<open>
  \<open>model.export(...)\<close> writes its file where the library decides, not where the script
  asks: the script looks for it afterwards.
\<close>

definition yolo_model_export :: "env \<Rightarrow> command" where
  "yolo_model_export env = block
     [library_call (yolo_export env),
      (\<lambda>s. if yolo_export_writes env then write_file yolo_onnx_path (OnnxGraph YoloSeg) s
            else (None, s))]"

text \<open>The body of the \<open>try\<close> of \<open>convert_yolo_model\<close>, and the method.\<close>

definition yolo_try :: "converter \<Rightarrow> env \<Rightarrow> command" where
  "yolo_try self env = block
     [library_call (yolo_load env),
      yolo_model_export env,
      (\<lambda>s. if files s yolo_onnx_path \<noteq> None
            then block
              [rename (yolo_rename env) yolo_onnx_path
                 (path_join (output_dir self) ''yolo11m-seg.onnx''),
               print (Converted Yolo)] s
            else print YoloFileNotFound s)]"

definition convert_yolo_model :: "converter \<Rightarrow> env \<Rightarrow> command" where
  "convert_yolo_model self env = block
     [enter (Export Yolo),
      print (Converting Yolo),
      try_except (yolo_try self env) (\<lambda>e. print (Failed Yolo e))]"

text \<open>The three export methods and their \<open>try\<close> bodies, by model.\<close>

fun export :: "model \<Rightarrow> converter \<Rightarrow> env \<Rightarrow> command" where
  "export Yolo = convert_yolo_model"
| "export ClipVit = convert_clip_vit_model"
| "export Clipseg = convert_clipseg_model"

fun export_try :: "model \<Rightarrow> converter \<Rightarrow> env \<Rightarrow> command" where
  "export_try Yolo = yolo_try"
| "export_try ClipVit = clip_vit_try"
| "export_try Clipseg = clipseg_try"

text \<open>The state in which an export begins its \<open>try\<close>: entered, first line printed.\<close>

definition try_start :: "model \<Rightarrow> state \<Rightarrow> state" where
  "try_start m s = snd (block [enter (Export m), print (Converting m)] s)"

text \<open>
  \<open>save_model_config\<close> has no \<open>try\<close>: what \<open>open\<close> raises leaves the method.
  \<open>json.dump\<close> turns the dictionary into text; the file is modelled by the document.
\<close>

definition config_path :: "converter \<Rightarrow> string" where
  "config_path self = path_join (output_dir self) ''config.json''"

definition save_model_config :: "converter \<Rightarrow> env \<Rightarrow> command" where
  "save_model_config self env = block
     [enter SaveModelConfig,
      library_call (config_open env),
      write_file (config_path self) (JsonDocument config),
      print ConfigSaved]"

text \<open>
  \<open>convert_all\<close>: the \<open>except\<close> branch of the loading check ends in \<open>return\<close>, so the
  statements after the \<open>try\<close> are the continuation of its \<open>try\<close> branch only.
\<close>

definition convert_all :: "converter \<Rightarrow> env \<Rightarrow> command" where
  "convert_all self env = block
     [print StartingConversion,
      print LoadingModels,
      (\<lambda>s. case library_call (check_loaded env) s of
              (Some e, s') \<Rightarrow> print (LoadFailed e) s'
            | (None, s') \<Rightarrow> block
                [print ModelsLoaded,
                 convert_yolo_model self env,
                 convert_clip_vit_model self env,
                 convert_clipseg_model self env,
                 save_model_config self env,
                 print ConversionCompleted,
                 print (ModelsSavedTo (output_dir self)),
                 print NextSteps] s')]"


subsection \<open>Reading a trace\<close>

text \<open>The line with which the export of a model ends, whether it worked or not.\<close>

definition finishes :: "model \<Rightarrow> event \<Rightarrow> bool" where
  "finishes m ev =
     (case ev of
        Enter c \<Rightarrow> False
      | Print l \<Rightarrow>
          (case l of
             Converted m' \<Rightarrow> m' = m
           | Failed m' e \<Rightarrow> m' = m
           | YoloFileNotFound \<Rightarrow> m = Yolo
           | other \<Rightarrow> False))"

text \<open>The events of a trace before the first entry into a method.\<close>

definition before_entry :: "routine \<Rightarrow> event list \<Rightarrow> event list" where
  "before_entry m evs = takeWhile (\<lambda>ev. ev \<noteq> Enter m) evs"

text \<open>The events that a run from \<open>s\<close> to \<open>s'\<close> added.\<close>

definition new_events :: "state \<Rightarrow> state \<Rightarrow> event list" where
  "new_events s s' = drop (length (trace s)) (trace s')"

text \<open>The methods a trace enters, in order.\<close>

fun entered :: "event list \<Rightarrow> routine list" where
  "entered [] = []"
| "entered (Enter c # evs) = c # entered evs"
| "entered (Print l # evs) = entered evs"




subsection \<open>Sample runs\<close>

text \<open>
  A world in which every call returns, with the script installed in \<open>/opt/recognizer\<close>;
  a file system with no files; the converter that \<open>init\<close> builds there.
\<close>

definition calm :: env where
  "calm =
     \<lparr>script_dir = ''/opt/recognizer'',
      mkdir_output_dir = Returns,
      check_loaded = Returns,
      yolo_load = Returns,
      yolo_export = Returns,
      yolo_export_writes = True,
      yolo_rename = Returns,
      clip_model_load = Returns,
      clip_processor_load = Returns,
      clip_processor_call = Returns,
      clip_text_export = Returns,
      clip_vision_export = Returns,
      clipseg_model_load = Returns,
      clipseg_processor_load = Returns,
      clipseg_processor_call = Returns,
      clipseg_export = Returns,
      config_open = Returns\<rparr>"

definition blank :: state where
  "blank = \<lparr>files = Map.empty, trace = []\<rparr>"

definition installed :: converter where
  "installed = \<lparr>output_dir = ''/opt/recognizer/browser-extension/models''\<rparr>"

text \<open>The same world with one thing going wrong.\<close>

definition yolo_weights_missing :: env where
  "yolo_weights_missing = calm\<lparr>yolo_load := Raises ''yolo11m-seg.pt does not exist''\<rparr>"

definition yolo_file_elsewhere :: env where
  "yolo_file_elsewhere = calm\<lparr>yolo_export_writes := False\<rparr>"

definition models_not_loaded :: env where
  "models_not_loaded = calm\<lparr>check_loaded := Raises ''model download failed''\<rparr>"

definition output_read_only :: env where
  "output_read_only = calm\<lparr>config_open := Raises ''Permission denied''\<rparr>"

section \<open>Properties of the configuration document\<close>

lemma config_tables:
  "lookup_path [''labels'', ''yolo_alias''] config =
     Some (JObject (map (\<lambda>(k, vs). (k, JArray (map JString vs))) yolo_alias))"
  "lookup_path [''labels'', ''clip_labels''] config = Some (JArray (map JString clip_labels))"
  "lookup_path [''labels'', ''challenge_alias''] config =
     Some (JObject (map (\<lambda>(k, v). (k, JString v)) challenge_alias))"
  "lookup_path [''labels'', ''thresholds''] config =
     Some (JObject (map (\<lambda>(k, v). (k, JFloat v)) thresholds))"
  "lookup_path [''models'', ''yolo'', ''classes''] config = Some (JArray (map JString yolo_classes))"
  by (simp_all add: config_def)

lemma yolo_alias_values_config:
  "yolo_alias_values config = map JString (concat (map snd yolo_alias))"
  by (simp add: yolo_alias_values_def config_tables yolo_alias_def)

text \<open>
  Claim C4, as the specification states it: every category named by a value of
  \<open>yolo_alias\<close>, by a value of \<open>challenge_alias\<close> or by a key of \<open>thresholds\<close> is one
  of \<open>clip_labels\<close>. The document does not satisfy it: \<open>truck\<close> is a value of the
  \<open>yolo_alias\<close> entries \<open>car\<close> and \<open>bus\<close>, and is not in \<open>clip_labels\<close>.
\<close>

theorem alias_outside_clip_labels_counterexample:
  "JString ''truck'' \<in> set (yolo_alias_values config)
   \<and> JString ''truck'' \<notin> set (clip_vocabulary config)"
  by (simp add: yolo_alias_values_config clip_vocabulary_def config_tables yolo_alias_def
      clip_labels_def)

text \<open>
  Claim C4, amended: in the emitted document every value of the \<open>yolo_alias\<close> entries is
  a class of the detector (\<open>models.yolo.classes\<close>), every value of \<open>challenge_alias\<close> is
  one of \<open>clip_labels\<close> or a key of \<open>yolo_alias\<close>, and every key of \<open>thresholds\<close> is one
  of \<open>clip_labels\<close>.
\<close>

theorem alias_tables_closed:
  "set (yolo_alias_values config) \<subseteq> set (yolo_vocabulary config)
   \<and> set (challenge_alias_values config)
        \<subseteq> set (clip_vocabulary config) \<union> set (yolo_alias_keys config)
   \<and> set (threshold_keys config) \<subseteq> set (clip_vocabulary config)"
proof (intro conjI)
  show "set (yolo_alias_values config) \<subseteq> set (yolo_vocabulary config)"
    by (simp add: yolo_alias_values_config yolo_vocabulary_def config_tables yolo_alias_def
        yolo_classes_def)
  show "set (challenge_alias_values config)
          \<subseteq> set (clip_vocabulary config) \<union> set (yolo_alias_keys config)"
    by (simp add: challenge_alias_values_def yolo_alias_keys_def clip_vocabulary_def
        config_tables yolo_alias_def challenge_alias_def clip_labels_def)
  show "set (threshold_keys config) \<subseteq> set (clip_vocabulary config)"
    by (simp add: threshold_keys_def clip_vocabulary_def config_tables thresholds_def
        clip_labels_def)
qed

theorem alias_tables_closed_witness:
  "JString ''parking meter'' \<in> set (challenge_alias_values config)
   \<and> JString ''parking meter'' \<in> set (clip_vocabulary config) \<union> set (yolo_alias_keys config)"
proof -
  have h: "JString ''parking meter'' \<in> set (challenge_alias_values config)"
    by (simp add: challenge_alias_values_def config_tables challenge_alias_def)
  from alias_tables_closed
  have "set (challenge_alias_values config)
          \<subseteq> set (clip_vocabulary config) \<union> set (yolo_alias_keys config)"
    by blast
  with h show ?thesis by blast
qed

text \<open>
  Claim C8: every value of the threshold table of the emitted document is a float
  between 0 and 1 (and the table is not empty). A float literal stands for the decimal
  number it is written as; 0 and 1 are floats, so rounding to the nearest float keeps a
  number between them.
\<close>

theorem thresholds_in_unit_interval:
  "threshold_values config \<noteq> [] \<and> (\<forall>v \<in> set (threshold_values config). unit_float v)"
  by (simp add: threshold_values_def config_tables thresholds_def)

theorem thresholds_in_unit_interval_witness:
  "JFloat 0.9385110986077537 \<in> set (threshold_values config)
   \<and> unit_float (JFloat 0.9385110986077537)"
proof -
  have h: "JFloat 0.9385110986077537 \<in> set (threshold_values config)"
    by (simp add: threshold_values_def config_tables thresholds_def)
  from thresholds_in_unit_interval
  have "\<forall>v \<in> set (threshold_values config). unit_float v" by blast
  with h show ?thesis by blast
qed

section \<open>Properties of the pipeline\<close>

lemmas command_defs = print_def enter_def library_call_def write_file_def try_except_def
  onnx_export_def rename_def

lemmas method_defs = convert_yolo_model_def convert_clip_vit_model_def
  convert_clipseg_model_def yolo_try_def clip_vit_try_def clipseg_try_def
  yolo_model_export_def

lemmas sample_defs = calm_def blank_def installed_def yolo_weights_missing_def
  yolo_file_elsewhere_def models_not_loaded_def output_read_only_def

lemma finishes_simps [simp]:
  "finishes m (Print (Converted m))"
  "finishes m (Print (Failed m e))"
  "finishes Yolo (Print YoloFileNotFound)"
  "\<not> finishes m (Enter c)"
  by (simp_all add: finishes_def)

lemma finishes_is_Print: "finishes m ev \<Longrightarrow> \<exists>l. ev = Print l"
  by (cases ev) (simp_all add: finishes_def)

text \<open>
  An export method never lets an exception out, and adds three events: its entry, its
  first line and the line it ends with.
\<close>

lemma export_trace:
  "\<exists>fin s'. finishes m fin \<and> export m self env s = (None, s') \<and>
     trace s' = trace s @ [Enter (Export m), Print (Converting m), fin]"
  by (cases m)
     (auto simp: method_defs command_defs split: outcome.splits option.splits)

lemma export_caught:
  "fst (export_try m self env (try_start m st)) = Some e \<Longrightarrow>
     fst (export m self env st) = None
     \<and> last (trace (snd (export m self env st))) = Print (Failed m e)"
  by (cases m)
     (auto simp: try_start_def method_defs command_defs
       split: outcome.splits option.splits if_splits)

lemma save_model_config_result:
  "save_model_config self env s =
     (case config_open env of
        Raises e \<Rightarrow> (Some e, s\<lparr>trace := trace s @ [Enter SaveModelConfig]\<rparr>)
      | Returns \<Rightarrow>
          (None, s\<lparr>trace := trace s @ [Enter SaveModelConfig, Print ConfigSaved],
                    files := (files s)(config_path self \<mapsto> JsonDocument config)\<rparr>))"
  by (simp add: save_model_config_def command_defs split: outcome.splits)

text \<open>
  When the loading check returns, \<open>convert_all\<close> runs the three exports one after the
  other, none of them raising, and goes on with \<open>save_model_config\<close>.
\<close>

lemma convert_all_run:
  assumes "check_loaded env = Returns"
    and "s0 = s\<lparr>trace := trace s @
      [Print StartingConversion, Print LoadingModels, Print ModelsLoaded]\<rparr>"
  shows "\<exists>f1 s1 f2 f3 s3.
    convert_yolo_model self env s0 = (None, s1)
    \<and> trace s1 = trace s @ [Print StartingConversion, Print LoadingModels, Print ModelsLoaded,
         Enter (Export Yolo), Print (Converting Yolo), f1]
    \<and> finishes Yolo f1 \<and> finishes ClipVit f2 \<and> finishes Clipseg f3
    \<and> trace s3 = trace s1 @ [Enter (Export ClipVit), Print (Converting ClipVit), f2,
         Enter (Export Clipseg), Print (Converting Clipseg), f3]
    \<and> convert_all self env s =
        block [save_model_config self env, print ConversionCompleted,
               print (ModelsSavedTo (output_dir self)), print NextSteps] s3"
proof -
  note s0_def = assms(2)
  obtain f1 s1 where 1: "finishes Yolo f1" "convert_yolo_model self env s0 = (None, s1)"
    "trace s1 = trace s0 @ [Enter (Export Yolo), Print (Converting Yolo), f1]"
    using export_trace [of Yolo self env s0] by auto
  obtain f2 s2 where 2: "finishes ClipVit f2" "convert_clip_vit_model self env s1 = (None, s2)"
    "trace s2 = trace s1 @ [Enter (Export ClipVit), Print (Converting ClipVit), f2]"
    using export_trace [of ClipVit self env s1] by auto
  obtain f3 s3 where 3: "finishes Clipseg f3" "convert_clipseg_model self env s2 = (None, s3)"
    "trace s3 = trace s2 @ [Enter (Export Clipseg), Print (Converting Clipseg), f3]"
    using export_trace [of Clipseg self env s2] by auto
  have run: "convert_all self env s =
    block [save_model_config self env, print ConversionCompleted,
           print (ModelsSavedTo (output_dir self)), print NextSteps] s3"
    using assms(1) 1(2) 2(2) 3(2) unfolding s0_def
    by (simp add: convert_all_def print_def library_call_def
        split: prod.splits option.splits)
  have t1: "trace s1 = trace s @ [Print StartingConversion, Print LoadingModels,
      Print ModelsLoaded, Enter (Export Yolo), Print (Converting Yolo), f1]"
    by (simp add: 1(3) s0_def)
  have t3: "trace s3 = trace s1 @ [Enter (Export ClipVit), Print (Converting ClipVit), f2,
      Enter (Export Clipseg), Print (Converting Clipseg), f3]"
    by (simp add: 2(3) 3(3))
  from 1(1,2) 2(1) 3(1) t1 t3 run show ?thesis by blast
qed

lemma convert_all_events:
  assumes "check_loaded env = Returns"
  shows "\<exists>f1 f2 f3. finishes Yolo f1 \<and> finishes ClipVit f2 \<and> finishes Clipseg f3 \<and>
    new_events s (snd (convert_all self env s)) =
      [Print StartingConversion, Print LoadingModels, Print ModelsLoaded,
       Enter (Export Yolo), Print (Converting Yolo), f1,
       Enter (Export ClipVit), Print (Converting ClipVit), f2,
       Enter (Export Clipseg), Print (Converting Clipseg), f3,
       Enter SaveModelConfig]
      @ (case config_open env of
           Raises e \<Rightarrow> []
         | Returns \<Rightarrow> [Print ConfigSaved, Print ConversionCompleted,
                        Print (ModelsSavedTo (output_dir self)), Print NextSteps])"
proof -
  define s0 where "s0 = s\<lparr>trace := trace s @
    [Print StartingConversion, Print LoadingModels, Print ModelsLoaded]\<rparr>"
  obtain f1 and s1 :: state and f2 f3 s3
    where f: "finishes Yolo f1" "finishes ClipVit f2" "finishes Clipseg f3"
    and t1: "trace s1 = trace s @ [Print StartingConversion, Print LoadingModels,
      Print ModelsLoaded, Enter (Export Yolo), Print (Converting Yolo), f1]"
    and t3: "trace s3 = trace s1 @ [Enter (Export ClipVit), Print (Converting ClipVit), f2,
      Enter (Export Clipseg), Print (Converting Clipseg), f3]"
    and run: "convert_all self env s =
        block [save_model_config self env, print ConversionCompleted,
               print (ModelsSavedTo (output_dir self)), print NextSteps] s3"
    using convert_all_run [where self = self, OF assms s0_def] by blast
  have "new_events s (snd (convert_all self env s)) =
      [Print StartingConversion, Print LoadingModels, Print ModelsLoaded,
       Enter (Export Yolo), Print (Converting Yolo), f1,
       Enter (Export ClipVit), Print (Converting ClipVit), f2,
       Enter (Export Clipseg), Print (Converting Clipseg), f3,
       Enter SaveModelConfig]
      @ (case config_open env of
           Raises e \<Rightarrow> []
         | Returns \<Rightarrow> [Print ConfigSaved, Print ConversionCompleted,
                        Print (ModelsSavedTo (output_dir self)), Print NextSteps])"
    unfolding run
    by (simp add: new_events_def save_model_config_result print_def t1 t3
        split: outcome.splits)
  with f show ?thesis by blast
qed

lemma convert_all_files:
  assumes "check_loaded env = Returns" and "config_open env = Returns"
  shows "files (snd (convert_all self env s)) (config_path self) = Some (JsonDocument config)"
proof -
  define s0 where "s0 = s\<lparr>trace := trace s @
    [Print StartingConversion, Print LoadingModels, Print ModelsLoaded]\<rparr>"
  obtain s3 where run: "convert_all self env s =
        block [save_model_config self env, print ConversionCompleted,
               print (ModelsSavedTo (output_dir self)), print NextSteps] s3"
    using convert_all_run [where self = self, OF assms(1) s0_def] by blast
  show ?thesis unfolding run using assms(2)
    by (simp add: save_model_config_result print_def)
qed

lemma entered_events:
  assumes "finishes Yolo f1" and "finishes ClipVit f2" and "finishes Clipseg f3"
  shows "entered
      ([Print StartingConversion, Print LoadingModels, Print ModelsLoaded,
        Enter (Export Yolo), Print (Converting Yolo), f1,
        Enter (Export ClipVit), Print (Converting ClipVit), f2,
        Enter (Export Clipseg), Print (Converting Clipseg), f3,
        Enter SaveModelConfig]
       @ (case config_open env of
            Raises e \<Rightarrow> []
          | Returns \<Rightarrow> [Print ConfigSaved, Print ConversionCompleted,
                         Print (ModelsSavedTo d), Print NextSteps]))
    = [Export Yolo, Export ClipVit, Export Clipseg, SaveModelConfig]"
  using finishes_is_Print [OF assms(1)] finishes_is_Print [OF assms(2)]
    finishes_is_Print [OF assms(3)]
  by (auto split: outcome.splits)

text \<open>
  Claim C2: an exception raised inside the export of one model is caught and logged, and
  the other exports and the config emission still run. First half: whenever the \<open>try\<close>
  body of an export, begun where the export begins it, raises \<open>e\<close>, the export returns
  normally and the last line it has printed is the failure line with \<open>e\<close>. Second half: in every run that reaches the
  exports (the loading check has returned), the methods entered are the three exports
  and \<open>save_model_config\<close>, in this order, whatever the exports did.
\<close>

theorem export_failure_is_isolated:
  "(\<forall>m st e. fst (export_try m self env (try_start m st)) = Some e \<longrightarrow>
      fst (export m self env st) = None
      \<and> last (trace (snd (export m self env st))) = Print (Failed m e))
   \<and> (check_loaded env = Returns \<longrightarrow>
        entered (new_events s (snd (convert_all self env s)))
          = [Export Yolo, Export ClipVit, Export Clipseg, SaveModelConfig])"
proof (intro conjI allI impI)
  fix m st e
  assume "fst (export_try m self env (try_start m st)) = Some e"
  then show "fst (export m self env st) = None"
    and "last (trace (snd (export m self env st))) = Print (Failed m e)"
    using export_caught by blast+
next
  assume ok: "check_loaded env = Returns"
  obtain f1 f2 f3 where f: "finishes Yolo f1" "finishes ClipVit f2" "finishes Clipseg f3"
    and ev: "new_events s (snd (convert_all self env s)) =
      [Print StartingConversion, Print LoadingModels, Print ModelsLoaded,
       Enter (Export Yolo), Print (Converting Yolo), f1,
       Enter (Export ClipVit), Print (Converting ClipVit), f2,
       Enter (Export Clipseg), Print (Converting Clipseg), f3,
       Enter SaveModelConfig]
      @ (case config_open env of
           Raises e \<Rightarrow> []
         | Returns \<Rightarrow> [Print ConfigSaved, Print ConversionCompleted,
                        Print (ModelsSavedTo (output_dir self)), Print NextSteps])"
    using convert_all_events [where s = s and self = self, OF ok] by blast
  show "entered (new_events s (snd (convert_all self env s)))
          = [Export Yolo, Export ClipVit, Export Clipseg, SaveModelConfig]"
    unfolding ev by (rule entered_events [OF f])
qed

theorem export_failure_is_isolated_witness:
  "check_loaded yolo_weights_missing = Returns
   \<and> fst (export_try Yolo installed yolo_weights_missing (try_start Yolo blank))
       = Some ''yolo11m-seg.pt does not exist''
   \<and> fst (export Yolo installed yolo_weights_missing blank) = None
   \<and> last (trace (snd (export Yolo installed yolo_weights_missing blank)))
       = Print (Failed Yolo ''yolo11m-seg.pt does not exist'')
   \<and> entered (new_events blank (snd (convert_all installed yolo_weights_missing blank)))
       = [Export Yolo, Export ClipVit, Export Clipseg, SaveModelConfig]"
proof -
  have h1: "check_loaded yolo_weights_missing = Returns"
    by (simp add: sample_defs)
  have h2: "fst (export_try Yolo installed yolo_weights_missing (try_start Yolo blank))
      = Some ''yolo11m-seg.pt does not exist''"
    by (simp add: try_start_def sample_defs method_defs command_defs)
  from export_failure_is_isolated [where self = installed and env = yolo_weights_missing and s = blank] h1 h2
  show ?thesis by blast
qed

text \<open>
  Claim C5, as the specification states it: in every run of the pipeline the config
  emitter is invoked and writes the configuration file. It fails in the run in which
  the loading check raises (\<open>save_model_config\<close> is not entered and no configuration
  file exists afterwards), and the file is not written either when \<open>open\<close> raises.
\<close>

theorem config_not_emitted_counterexample:
  "SaveModelConfig \<notin> set (entered (trace (snd (convert_all installed models_not_loaded blank))))
   \<and> files (snd (convert_all installed models_not_loaded blank)) (config_path installed) = None
   \<and> files (snd (convert_all installed output_read_only blank)) (config_path installed) = None"
  by (simp add: sample_defs convert_all_def save_model_config_def config_path_def
      path_join_def yolo_onnx_path_def method_defs command_defs)

text \<open>
  Claim C5, amended: in every run in which the loading check returns,
  \<open>save_model_config\<close> is entered after each of the three exports has ended (converted
  or failed), whatever the exports did; it changes no file but \<open>config.json\<close>; and
  when \<open>open\<close> returns, \<open>config.json\<close> holds the configuration document after the run.
\<close>

theorem config_emitted_after_exports:
  assumes "check_loaded env = Returns"
  shows "Enter SaveModelConfig \<in> set (new_events s (snd (convert_all self env s)))
    \<and> (\<forall>m. list_ex (finishes m)
          (before_entry SaveModelConfig (new_events s (snd (convert_all self env s)))))
    \<and> (\<forall>st p. p \<noteq> config_path self \<longrightarrow>
          files (snd (save_model_config self env st)) p = files st p)
    \<and> (config_open env = Returns \<longrightarrow>
          files (snd (convert_all self env s)) (config_path self) = Some (JsonDocument config))"
proof -
  obtain f1 f2 f3 where f: "finishes Yolo f1" "finishes ClipVit f2" "finishes Clipseg f3"
    and ev: "new_events s (snd (convert_all self env s)) =
      [Print StartingConversion, Print LoadingModels, Print ModelsLoaded,
       Enter (Export Yolo), Print (Converting Yolo), f1,
       Enter (Export ClipVit), Print (Converting ClipVit), f2,
       Enter (Export Clipseg), Print (Converting Clipseg), f3,
       Enter SaveModelConfig]
      @ (case config_open env of
           Raises e \<Rightarrow> []
         | Returns \<Rightarrow> [Print ConfigSaved, Print ConversionCompleted,
                        Print (ModelsSavedTo (output_dir self)), Print NextSteps])"
    using convert_all_events [where s = s and self = self, OF assms] by blast
  have a: "Enter SaveModelConfig \<in> set (new_events s (snd (convert_all self env s)))"
    unfolding ev by simp
  have b: "list_ex (finishes m)
      (before_entry SaveModelConfig (new_events s (snd (convert_all self env s))))" for m
    unfolding ev before_entry_def
    using f finishes_is_Print [OF f(1)] finishes_is_Print [OF f(2)] finishes_is_Print [OF f(3)]
    by (cases m) auto
  have c: "files (snd (save_model_config self env st)) p = files st p"
    if "p \<noteq> config_path self" for st p
    using that by (simp add: save_model_config_result split: outcome.splits)
  have d: "files (snd (convert_all self env s)) (config_path self) = Some (JsonDocument config)"
    if "config_open env = Returns"
    using convert_all_files [OF assms that] .
  from a b c d show ?thesis by blast
qed

theorem config_emitted_after_exports_witness:
  "check_loaded yolo_weights_missing = Returns
   \<and> config_open yolo_weights_missing = Returns
   \<and> Enter SaveModelConfig
       \<in> set (new_events blank (snd (convert_all installed yolo_weights_missing blank)))
   \<and> list_ex (finishes Yolo) (before_entry SaveModelConfig
        (new_events blank (snd (convert_all installed yolo_weights_missing blank))))
   \<and> files (snd (convert_all installed yolo_weights_missing blank)) (config_path installed)
       = Some (JsonDocument config)"
proof -
  have h1: "check_loaded yolo_weights_missing = Returns"
    by (simp add: sample_defs)
  have h2: "config_open yolo_weights_missing = Returns"
    by (simp add: sample_defs)
  from config_emitted_after_exports [where s = blank and self = installed, OF h1] h1 h2
  show ?thesis by blast
qed

text \<open>
  Claim C6: when the loading check raises, \<open>convert_all\<close> returns at once: it prints its
  two opening lines and the failure, enters none of the three exports nor
  \<open>save_model_config\<close>, and leaves every file as it was (so no configuration file is
  written).
\<close>

theorem load_failure_returns_immediately:
  assumes "check_loaded env = Raises e"
  shows "convert_all self env s =
      (None, s\<lparr>trace := trace s @
         [Print StartingConversion, Print LoadingModels, Print (LoadFailed e)]\<rparr>)
    \<and> entered (new_events s (snd (convert_all self env s))) = []
    \<and> files (snd (convert_all self env s)) = files s"
  using assms by (simp add: convert_all_def command_defs new_events_def)

theorem load_failure_returns_immediately_witness:
  "check_loaded models_not_loaded = Raises ''model download failed''
   \<and> convert_all installed models_not_loaded blank =
      (None, blank\<lparr>trace := trace blank @
         [Print StartingConversion, Print LoadingModels,
          Print (LoadFailed ''model download failed'')]\<rparr>)
   \<and> entered (new_events blank (snd (convert_all installed models_not_loaded blank))) = []
   \<and> files (snd (convert_all installed models_not_loaded blank)) = files blank"
proof -
  have h: "check_loaded models_not_loaded = Raises ''model download failed''"
    by (simp add: sample_defs)
  from load_failure_returns_immediately [where self = installed and s = blank, OF h] h
  show ?thesis by blast
qed

text \<open>
  Claim C9: when the YOLO export has returned and \<open>yolo11m-seg.onnx\<close> is not there,
  \<open>convert_yolo_model\<close> prints that the file was not found, raises nothing, and the run
  goes on with the two other exports and \<open>save_model_config\<close>.
\<close>

theorem missing_yolo_file_is_not_fatal:
  assumes "check_loaded env = Returns"
    and "yolo_load env = Returns" and "yolo_export env = Returns"
    and "\<not> yolo_export_writes env" and "files s yolo_onnx_path = None"
  shows "take 6 (new_events s (snd (convert_all self env s))) =
      [Print StartingConversion, Print LoadingModels, Print ModelsLoaded,
       Enter (Export Yolo), Print (Converting Yolo), Print YoloFileNotFound]
    \<and> entered (drop 6 (new_events s (snd (convert_all self env s))))
        = [Export ClipVit, Export Clipseg, SaveModelConfig]"
proof -
  define s0 where "s0 = s\<lparr>trace := trace s @
    [Print StartingConversion, Print LoadingModels, Print ModelsLoaded]\<rparr>"
  obtain f1 s1 f2 f3 s3 where f: "finishes ClipVit f2" "finishes Clipseg f3"
    and y: "convert_yolo_model self env s0 = (None, s1)"
    and t1: "trace s1 = trace s @ [Print StartingConversion, Print LoadingModels,
      Print ModelsLoaded, Enter (Export Yolo), Print (Converting Yolo), f1]"
    and t3: "trace s3 = trace s1 @ [Enter (Export ClipVit), Print (Converting ClipVit), f2,
      Enter (Export Clipseg), Print (Converting Clipseg), f3]"
    and run: "convert_all self env s =
        block [save_model_config self env, print ConversionCompleted,
               print (ModelsSavedTo (output_dir self)), print NextSteps] s3"
    using convert_all_run [where self = self, OF assms(1) s0_def] by blast
  have "trace s1 = trace s @ [Print StartingConversion, Print LoadingModels,
      Print ModelsLoaded, Enter (Export Yolo), Print (Converting Yolo), Print YoloFileNotFound]"
    using y assms(2-5) unfolding s0_def by (auto simp: method_defs command_defs)
  with t1 have f1: "f1 = Print YoloFileNotFound" by simp
  have ev: "new_events s (snd (convert_all self env s)) =
      [Print StartingConversion, Print LoadingModels, Print ModelsLoaded,
       Enter (Export Yolo), Print (Converting Yolo), Print YoloFileNotFound,
       Enter (Export ClipVit), Print (Converting ClipVit), f2,
       Enter (Export Clipseg), Print (Converting Clipseg), f3,
       Enter SaveModelConfig]
      @ (case config_open env of
           Raises e \<Rightarrow> []
         | Returns \<Rightarrow> [Print ConfigSaved, Print ConversionCompleted,
                        Print (ModelsSavedTo (output_dir self)), Print NextSteps])"
    unfolding run
    by (simp add: new_events_def save_model_config_result print_def t1 t3 f1
        split: outcome.splits)
  show ?thesis
    unfolding ev using finishes_is_Print [OF f(1)] finishes_is_Print [OF f(2)]
    by (auto split: outcome.splits)
qed

theorem missing_yolo_file_is_not_fatal_witness:
  "check_loaded yolo_file_elsewhere = Returns
   \<and> yolo_load yolo_file_elsewhere = Returns \<and> yolo_export yolo_file_elsewhere = Returns
   \<and> \<not> yolo_export_writes yolo_file_elsewhere \<and> files blank yolo_onnx_path = None
   \<and> take 6 (new_events blank (snd (convert_all installed yolo_file_elsewhere blank))) =
      [Print StartingConversion, Print LoadingModels, Print ModelsLoaded,
       Enter (Export Yolo), Print (Converting Yolo), Print YoloFileNotFound]
   \<and> entered (drop 6 (new_events blank (snd (convert_all installed yolo_file_elsewhere blank))))
       = [Export ClipVit, Export Clipseg, SaveModelConfig]"
proof -
  have h: "check_loaded yolo_file_elsewhere = Returns" "yolo_load yolo_file_elsewhere = Returns"
    "yolo_export yolo_file_elsewhere = Returns" "\<not> yolo_export_writes yolo_file_elsewhere"
    "files blank yolo_onnx_path = None"
    by (simp_all add: sample_defs)
  from missing_yolo_file_is_not_fatal [where self = installed, OF h] h
  show ?thesis by blast
qed












text \<open>
  Claim C7: \<open>save_model_config\<close> is deterministic. Any two invocations whose \<open>open\<close>
  returns, from any two states, in any two worlds and for any two converters, leave the
  same contents in their \<open>config.json\<close>: the configuration document.
\<close>

theorem config_document_deterministic:
  assumes "config_open env = Returns" and "config_open env' = Returns"
  shows "files (snd (save_model_config self env s)) (config_path self)
      = files (snd (save_model_config self' env' s')) (config_path self')
    \<and> files (snd (save_model_config self env s)) (config_path self)
      = Some (JsonDocument config)"
  using assms by (simp add: save_model_config_result)

theorem config_document_deterministic_witness:
  "config_open calm = Returns \<and> config_open yolo_weights_missing = Returns
   \<and> files (snd (save_model_config installed calm blank)) (config_path installed)
      = files (snd (save_model_config installed yolo_weights_missing
                 (snd (convert_yolo_model installed yolo_weights_missing blank))))
          (config_path installed)
   \<and> files (snd (save_model_config installed calm blank)) (config_path installed)
      = Some (JsonDocument config)"
proof -
  have h1: "config_open calm = Returns" by (simp add: sample_defs)
  have h2: "config_open yolo_weights_missing = Returns" by (simp add: sample_defs)
  note d = config_document_deterministic [OF h1 h2]
  from d [of installed blank installed
      "snd (convert_yolo_model installed yolo_weights_missing blank)"] h1 h2
  show ?thesis by blast
qed

end
